theory Spec2Isabelle
  imports Main "HOL-Library.Sublist"
begin

section \<open>The upgrade utility \<^verbatim>\<open>junos_upgrade.py\<close> as state-passing functions\<close>

text \<open>
  The script drives one device through the library objects \<^verbatim>\<open>Device\<close>, \<^verbatim>\<open>SW\<close> and
  \<^verbatim>\<open>FS\<close>, the clock (\<^verbatim>\<open>time.time\<close>, \<^verbatim>\<open>time.sleep\<close>), the file system
  (\<^verbatim>\<open>os.path.exists\<close>) and the process environment. None of these is part of the
  script, so each is a field of the record \<open>env\<close>: what the call answers when the script
  makes it. Every function of the script is a function of \<open>env\<close> and of a \<open>state\<close>
  that holds the clock, the devices created so far, their \<^verbatim>\<open>connected\<close> flags and the
  trace of the calls made.
\<close>

subsection \<open>Exceptions, events, outcomes\<close>

text \<open>
  The exceptions the handlers of the script tell apart. All of them derive from
  \<^verbatim>\<open>Exception\<close>: \<open>ConnectError\<close> and \<open>RpcError\<close> are the two classes the script
  imports, \<open>AttributeError\<close> is what a method call on a value without that method raises
  (\<^verbatim>\<open>None.startswith\<close>, \<^verbatim>\<open>str.get\<close>), \<open>TypeError\<close> is what \<^verbatim>\<open>'files' not in None\<close>
  raises, and \<open>OtherException\<close> is any other subclass of \<^verbatim>\<open>Exception\<close>. What a clause
  \<^verbatim>\<open>except Exception\<close> does not catch (an operator interrupt) is not an input of the model.
\<close>

datatype exn = ConnectError | RpcError | AttributeError | TypeError | OtherException

text \<open>
  One event for each call the script makes outside itself. A device is named by the
  number of the \<^verbatim>\<open>Device(...)\<close> object, counted from 0 in the order of creation.
\<close>

datatype event =
    Getpass
  | OpenOk nat
  | OpenFailed nat exn
  | Close nat
  | ReadFacts nat
  | Ls nat string
  | PathExists string
  | SafeCopy nat string string
  | Install nat string string
  | Reboot nat
  | Sleep nat

text \<open>
  The return statements of \<^verbatim>\<open>main\<close>, named by the message each one logs or prints:
  line 257 \<open>ConnectionFailed\<close>, line 265 \<open>AlreadyUpToDate\<close>, line 272
  \<open>ImageCopyFailed\<close>, line 290 \<open>Success\<close>, line 295 \<open>VersionMismatch\<close>, line 300
  \<open>RebootTimedOut\<close>, line 305 \<open>InstallFailed\<close>, line 311 \<open>UpgradeProcessFailed\<close> (the
  handler of the \<^verbatim>\<open>try\<close>), and \<open>ConfigRejected\<close> for the \<^verbatim>\<open>sys.exit(1)\<close> of
  \<^verbatim>\<open>load_config\<close> (line 94). The integer beside the outcome is the value the source
  returns there, which line 321 hands to \<^verbatim>\<open>sys.exit\<close>. \<open>UncaughtException\<close> is an
  exception that leaves \<^verbatim>\<open>main\<close> (raised by the \<^verbatim>\<open>finally\<close> block): line 322 only
  catches \<^verbatim>\<open>KeyboardInterrupt\<close>, so the interpreter prints the traceback and exits with
  code 1.
\<close>

datatype outcome =
    ConfigRejected
  | ConnectionFailed
  | AlreadyUpToDate
  | ImageCopyFailed
  | InstallFailed
  | RebootTimedOut
  | VersionMismatch
  | Success
  | UpgradeProcessFailed
  | UncaughtException

subsection \<open>The environment and the state\<close>

text \<open>The parsed command line: an option that was not given is \<^verbatim>\<open>None\<close>.\<close>

record args =
  arg_host :: "string option"
  arg_user :: "string option"
  arg_password :: "string option"
  arg_image :: "string option"
  arg_local_path :: "string option"
  arg_remote_path :: "string option"
  arg_expected_version :: "string option"
  arg_timeout :: int

text \<open>
  \<open>environ\<close> is the process environment after \<^verbatim>\<open>load_dotenv\<close>. \<open>open_result k\<close> is
  what \<^verbatim>\<open>dev.open()\<close> does on device \<open>k\<close> (\<open>None\<close>: it returns, \<open>Some x\<close>: it
  raises \<open>x\<close>) and \<open>open_time k\<close> how long that call takes. \<open>dev_facts k\<close> is
  \<^verbatim>\<open>dev.facts\<close> of device \<open>k\<close>; a key may be bound to \<^verbatim>\<open>None\<close>. \<open>sw_safe_copy\<close>,
  \<open>sw_install\<close> and \<open>sw_reboot\<close> answer the one call of each that a run can make.

  \<open>fs_ls\<close> answers \<^verbatim>\<open>fs.ls(remote_path)\<close>. The library returns \<^verbatim>\<open>None\<close> for a path it
  does not find (\<open>LsNone\<close>), and otherwise a dictionary (\<open>LsDict\<close>) in which \<^verbatim>\<open>files\<close>,
  when present, is itself a dictionary keyed by file name: iterating it yields the names,
  which are strings (\<open>FileName\<close>). \<^verbatim>\<open>check_image_on_device\<close> reads each element as a
  dictionary with a \<^verbatim>\<open>name\<close> (\<open>FileInfo\<close>, with the name or without); both shapes are
  values of the model.

  \<open>close_going_down n\<close> is what \<^verbatim>\<open>dev.close()\<close> does when it is called for the
  \<open>n\<close>-th time (from 0) on the session of a device that has accepted the reboot request:
  \<open>None\<close>, it returns; \<open>Some (x, stuck)\<close>, it raises \<open>x\<close> and leaves the flag
  \<^verbatim>\<open>connected\<close> set (\<open>stuck\<close>) or cleared.
\<close>

datatype file_entry = FileName string | FileInfo "string option"

datatype listing = LsNone | LsDict "file_entry list option"

record env =
  argv :: args
  environ :: "string \<rightharpoonup> string"
  getpass_input :: string
  open_result :: "nat \<Rightarrow> exn option"
  open_time :: "nat \<Rightarrow> nat"
  dev_facts :: "nat \<Rightarrow> exn + (string \<rightharpoonup> string option)"
  fs_ls :: "string \<Rightarrow> exn + listing"
  path_exists :: "string \<Rightarrow> bool"
  sw_safe_copy :: "exn + bool"
  sw_install :: "exn + bool \<times> string"
  sw_reboot :: "exn option"
  close_going_down :: "nat \<Rightarrow> (exn \<times> bool) option"

text \<open>
  The clock counts whole time-units (seconds). It advances in \<^verbatim>\<open>time.sleep\<close>, by the
  argument, and in \<^verbatim>\<open>dev.open()\<close>, by \<open>open_time\<close>. The flag \<^verbatim>\<open>connected\<close> of a
  device is set by \<^verbatim>\<open>open\<close> and cleared by \<^verbatim>\<open>close\<close>.
\<close>

record state =
  now :: int
  devices :: nat
  connected :: "nat set"
  trace :: "event list"

definition start :: "int \<Rightarrow> state" where
  "start t0 = \<lparr>now = t0, devices = 0, connected = {}, trace = []\<rparr>"

definition emit :: "event \<Rightarrow> state \<Rightarrow> state" where
  "emit ev s = s\<lparr>trace := trace s @ [ev]\<rparr>"

definition time_sleep :: "nat \<Rightarrow> state \<Rightarrow> state" where
  "time_sleep n s = emit (Sleep n) (s\<lparr>now := now s + int n\<rparr>)"

text \<open>\<^verbatim>\<open>dev = Device(...); dev.open()\<close>: the flag \<^verbatim>\<open>connected\<close> is set when the call returns.\<close>

definition device_open :: "env \<Rightarrow> state \<Rightarrow> (exn + nat) \<times> state" where
  "device_open e s =
     (let k = devices s;
          s1 = s\<lparr>devices := Suc k, now := now s + int (open_time e k)\<rparr>
      in case open_result e k of
           Some x \<Rightarrow> (Inl x, emit (OpenFailed k x) s1)
         | None \<Rightarrow> (Inr k, emit (OpenOk k) (s1\<lparr>connected := insert k (connected s1)\<rparr>)))"

text \<open>
  \<^verbatim>\<open>dev.close()\<close> is a remote call. On a session whose device has not accepted a reboot
  request it returns and the flag \<^verbatim>\<open>connected\<close> is cleared: nothing the script does
  disturbs that session. A device that has accepted the reboot request is going down, and
  a close of its session (line 277, and line 315 after it) does what \<open>close_going_down\<close>
  says. The event \<open>Close\<close> records the call, whether it returns or raises.
\<close>

definition going_down :: "env \<Rightarrow> nat \<Rightarrow> state \<Rightarrow> bool" where
  "going_down e d s = (sw_reboot e = None \<and> Reboot d \<in> set (trace s))"

definition device_close :: "env \<Rightarrow> nat \<Rightarrow> state \<Rightarrow> exn option \<times> state" where
  "device_close e d s =
     (let n = count_list (trace s) (Close d);
          s1 = emit (Close d) s;
          closed = s1\<lparr>connected := connected s1 - {d}\<rparr>
      in if going_down e d s then
           (case close_going_down e n of
              None \<Rightarrow> (None, closed)
            | Some (x, stuck) \<Rightarrow> (Some x, if stuck then s1 else closed))
         else (None, closed))"

subsection \<open>Python helpers\<close>

definition startswith :: "string \<Rightarrow> string \<Rightarrow> bool" where
  "startswith s p = prefix p s"

text \<open>\<^verbatim>\<open>a or b\<close> on values that are \<^verbatim>\<open>None\<close> or a string: the empty string is falsy.\<close>

definition py_or :: "string option \<Rightarrow> string option \<Rightarrow> string option" where
  "py_or a b = (case a of None \<Rightarrow> b | Some v \<Rightarrow> if v = [] then b else Some v)"

definition getenv :: "env \<Rightarrow> string \<Rightarrow> string option" where
  "getenv e k = environ e k"

definition getenv_default :: "env \<Rightarrow> string \<Rightarrow> string \<Rightarrow> string option" where
  "getenv_default e k d = (case environ e k of None \<Rightarrow> Some d | Some v \<Rightarrow> Some v)"

text \<open>\<^verbatim>\<open>os.path.join\<close> of two components and \<^verbatim>\<open>os.path.basename\<close> (POSIX).\<close>

definition os_path_join :: "string \<Rightarrow> string \<Rightarrow> string" where
  "os_path_join a b =
     (if prefix ''/'' b then b
      else if a = [] \<or> last a = CHR ''/'' then a @ b
      else a @ ''/'' @ b)"

definition os_path_basename :: "string \<Rightarrow> string" where
  "os_path_basename p = rev (takeWhile (\<lambda>c. c \<noteq> CHR ''/'') (rev p))"

subsection \<open>\<^verbatim>\<open>load_config\<close> (lines 54 to 105)\<close>

text \<open>The dictionary \<^verbatim>\<open>config\<close> as line 78 builds it: a value may be \<^verbatim>\<open>None\<close>.\<close>

record raw_config =
  raw_host :: "string option"
  raw_user :: "string option"
  raw_password :: "string option"
  raw_image_name :: "string option"
  raw_local_image_dir :: "string option"
  raw_remote_path :: "string option"
  raw_expected_version :: "string option"
  raw_timeout :: int

record config =
  host :: string
  user :: string
  password :: string
  image_name :: string
  local_image_dir :: string
  remote_path :: string
  expected_version :: string
  timeout :: int
  local_image_fullpath :: string
  remote_image_fullpath :: string

definition resolve :: "env \<Rightarrow> raw_config" where
  "resolve e =
     \<lparr>raw_host = py_or (arg_host (argv e)) (getenv e ''JUNOS_HOST''),
      raw_user = py_or (arg_user (argv e)) (getenv e ''JUNOS_USER''),
      raw_password = py_or (arg_password (argv e)) (getenv e ''JUNOS_PASSWORD''),
      raw_image_name = py_or (arg_image (argv e)) (getenv e ''JUNOS_IMAGE''),
      raw_local_image_dir = py_or (arg_local_path (argv e)) (getenv e ''JUNOS_IMAGE_PATH''),
      raw_remote_path =
        py_or (arg_remote_path (argv e)) (getenv_default e ''REMOTE_PATH'' ''/var/tmp/usb''),
      raw_expected_version =
        py_or (arg_expected_version (argv e)) (getenv_default e ''EXPECTED_VERSION'' ''24.2R2.18''),
      raw_timeout = arg_timeout (argv e)\<rparr>"

text \<open>
  Line 90: the keys whose value is \<^verbatim>\<open>None\<close>, the password left out. The timeout is an
  integer with a default and never \<^verbatim>\<open>None\<close>.
\<close>

definition missing :: "raw_config \<Rightarrow> string list" where
  "missing rc =
     map fst (filter (\<lambda>(k, v). v = None \<and> k \<notin> set [''password''])
       [(''host'', raw_host rc), (''user'', raw_user rc), (''password'', raw_password rc),
        (''image_name'', raw_image_name rc), (''local_image_dir'', raw_local_image_dir rc),
        (''remote_path'', raw_remote_path rc),
        (''expected_version'', raw_expected_version rc)])"

text \<open>Line 97: \<^verbatim>\<open>not config['password']\<close> holds for \<^verbatim>\<open>None\<close> and for the empty string.\<close>

definition password_unset :: "raw_config \<Rightarrow> bool" where
  "password_unset rc = (case raw_password rc of None \<Rightarrow> True | Some p \<Rightarrow> p = [])"

definition load_config :: "env \<Rightarrow> state \<Rightarrow> (int + config) \<times> state" where
  "load_config e s =
     (let rc = resolve e in
      if missing rc \<noteq> [] then (Inl 1, s)
      else
        (let s1 = (if password_unset rc then emit Getpass s else s);
             pw = (if password_unset rc then getpass_input e else the (raw_password rc))
         in (Inr \<lparr>host = the (raw_host rc), user = the (raw_user rc), password = pw,
                   image_name = the (raw_image_name rc),
                   local_image_dir = the (raw_local_image_dir rc),
                   remote_path = the (raw_remote_path rc),
                   expected_version = the (raw_expected_version rc),
                   timeout = raw_timeout rc,
                   local_image_fullpath =
                     os_path_join (the (raw_local_image_dir rc)) (the (raw_image_name rc)),
                   remote_image_fullpath =
                     os_path_join (the (raw_remote_path rc)) (the (raw_image_name rc))\<rparr>, s1)))"

subsection \<open>\<^verbatim>\<open>connect_device\<close> and \<^verbatim>\<open>probe_device\<close> (lines 107 to 140)\<close>

definition connect_device :: "env \<Rightarrow> state \<Rightarrow> nat option \<times> state" where
  "connect_device e s =
     (case fst (device_open e s) of
        Inr dev \<Rightarrow> (Some dev, snd (device_open e s))
      | Inl ConnectError \<Rightarrow> (None, snd (device_open e s))
      | Inl _ \<Rightarrow> (None, snd (device_open e s)))"

text \<open>
  The \<^verbatim>\<open>while\<close> loop of \<^verbatim>\<open>probe_device\<close>: both handlers log and fall through to
  \<^verbatim>\<open>time.sleep(10)\<close>.
\<close>

function probe_loop :: "env \<Rightarrow> int \<Rightarrow> state \<Rightarrow> nat option \<times> state" where
  "probe_loop e deadline s =
     (if now s < deadline then
        (case fst (device_open e s) of
           Inr dev \<Rightarrow> (Some dev, snd (device_open e s))
         | Inl ConnectError \<Rightarrow> probe_loop e deadline (time_sleep 10 (snd (device_open e s)))
         | Inl _ \<Rightarrow> probe_loop e deadline (time_sleep 10 (snd (device_open e s))))
      else (None, s))"
  by pat_completeness auto
termination
  by (relation "measure (\<lambda>(e, deadline, s). nat (deadline - now s))")
     (auto simp: device_open_def time_sleep_def emit_def Let_def split: option.splits)

declare probe_loop.simps [simp del]

definition probe_device :: "env \<Rightarrow> int \<Rightarrow> state \<Rightarrow> nat option \<times> state" where
  "probe_device e tmo s = probe_loop e (now s + tmo) s"

subsection \<open>Staging, installing, verifying (lines 142 to 242)\<close>

text \<open>
  The loop of lines 154 to 160: \<^verbatim>\<open>file_entry.get('name')\<close> raises \<^verbatim>\<open>AttributeError\<close> on
  a string, and compares the name of a dictionary with the image name.
\<close>

fun find_image :: "file_entry list \<Rightarrow> string \<Rightarrow> exn + bool" where
  "find_image [] n = Inr False"
| "find_image (FileName k # fs) n = Inl AttributeError"
| "find_image (FileInfo f # fs) n = (if f = Some n then Inr True else find_image fs n)"

text \<open>
  \<open>body\<close> is the block of the \<^verbatim>\<open>try\<close> (lines 147 to 160); the handler of line 161
  catches \<^verbatim>\<open>RpcError\<close> and nothing else.
\<close>

definition check_image_on_device ::
  "env \<Rightarrow> nat \<Rightarrow> string \<Rightarrow> string \<Rightarrow> state \<Rightarrow> (exn + bool) \<times> state" where
  "check_image_on_device e dev rpath iname s =
     (let s1 = emit (Ls dev rpath) s;
          body = (case fs_ls e rpath of
                    Inl x \<Rightarrow> Inl x
                  | Inr LsNone \<Rightarrow> Inl TypeError
                  | Inr (LsDict None) \<Rightarrow> Inr False
                  | Inr (LsDict (Some files)) \<Rightarrow> find_image files iname)
      in case body of
           Inl RpcError \<Rightarrow> (Inr False, s1)
         | _ \<Rightarrow> (body, s1))"

text \<open>
  \<^verbatim>\<open>os.path.getsize\<close> of a path that \<^verbatim>\<open>os.path.exists\<close> has just accepted is taken
  to return.
\<close>

definition copy_image_to_device ::
  "env \<Rightarrow> nat \<Rightarrow> string \<Rightarrow> string \<Rightarrow> string \<Rightarrow> state \<Rightarrow> bool \<times> state" where
  "copy_image_to_device e dev lpath rpath iname s =
     (let full_local_path = os_path_join lpath iname;
          s1 = emit (PathExists full_local_path) s
      in if \<not> path_exists e full_local_path then (False, s1)
         else
           (let s2 = emit (SafeCopy dev full_local_path rpath) s1 in
            case sw_safe_copy e of
              Inr result \<Rightarrow> (if result then (True, s2) else (False, s2))
            | Inl _ \<Rightarrow> (False, s2)))"

definition install_image :: "env \<Rightarrow> nat \<Rightarrow> string \<Rightarrow> string \<Rightarrow> state \<Rightarrow> bool \<times> state" where
  "install_image e dev rpath iname0 s =
     (let iname = os_path_basename iname0;
          s1 = emit (Install dev iname rpath) s
      in case sw_install e of
           Inr (ok, msg) \<Rightarrow>
             (if ok then
                (let s2 = emit (Reboot dev) s1 in
                 case sw_reboot e of
                   None \<Rightarrow> (True, s2)
                 | Some _ \<Rightarrow> (False, s2))
              else (False, s1))
         | Inl _ \<Rightarrow> (False, s1))"

text \<open>
  \<^verbatim>\<open>dev.facts.get("version", "")\<close>: the default only stands in for a missing key; a key
  bound to \<^verbatim>\<open>None\<close> gives \<^verbatim>\<open>None\<close>, whose \<^verbatim>\<open>startswith\<close> raises inside the \<^verbatim>\<open>try\<close>.
\<close>

definition verify_version :: "env \<Rightarrow> nat \<Rightarrow> string \<Rightarrow> state \<Rightarrow> bool \<times> state" where
  "verify_version e dev expected_prefix s =
     (let s1 = emit (ReadFacts dev) s in
      case dev_facts e dev of
        Inl _ \<Rightarrow> (False, s1)
      | Inr f \<Rightarrow>
          (case (case f ''version'' of None \<Rightarrow> Some [] | Some v \<Rightarrow> v) of
             None \<Rightarrow> (False, s1)
           | Some version \<Rightarrow>
               (if startswith version expected_prefix then (True, s1) else (False, s1))))"

subsection \<open>\<^verbatim>\<open>main\<close> (lines 244 to 316)\<close>

text \<open>
  The body of the \<^verbatim>\<open>try\<close> returns what the block does (\<open>Inl\<close>: it raises, \<open>Inr\<close>: it
  returns), the value of the variable \<^verbatim>\<open>dev\<close> at that moment, and the state.
  \<open>main_install\<close> is lines 274 to 305, \<open>main_try\<close> lines 260 to 305.
\<close>

definition main_install ::
  "env \<Rightarrow> config \<Rightarrow> nat \<Rightarrow> state \<Rightarrow> (exn + outcome \<times> int) \<times> nat option \<times> state" where
  "main_install e c dev s =
     (let (installed, s1) = install_image e dev (remote_path c) (image_name c) s in
      if installed then
        (let (raised, s2) = device_close e dev s1 in
         case raised of
           Some x \<Rightarrow> (Inl x, Some dev, s2)
         | None \<Rightarrow>
             (let s3 = time_sleep 720 s2;
                  (dev2, s4) = probe_device e (timeout c) s3
              in case dev2 of
                   Some d2 \<Rightarrow>
                     (let (verified, s5) = verify_version e d2 (expected_version c) s4 in
                      if verified then (Inr (Success, 0), Some d2, s5)
                      else (Inr (VersionMismatch, 1), Some d2, s5))
                 | None \<Rightarrow> (Inr (RebootTimedOut, 1), None, s4)))
      else (Inr (InstallFailed, 1), Some dev, s1))"

definition main_try ::
  "env \<Rightarrow> config \<Rightarrow> nat \<Rightarrow> state \<Rightarrow> (exn + outcome \<times> int) \<times> nat option \<times> state" where
  "main_try e c dev s =
     (let s1 = emit (ReadFacts dev) s in
      case dev_facts e dev of
        Inl x \<Rightarrow> (Inl x, Some dev, s1)
      | Inr f \<Rightarrow>
          (case (case f ''version'' of None \<Rightarrow> None | Some v \<Rightarrow> v) of
             None \<Rightarrow> (Inl AttributeError, Some dev, s1)
           | Some current_version \<Rightarrow>
               (if startswith current_version (expected_version c)
                then (Inr (AlreadyUpToDate, 0), Some dev, s1)
                else
                  (let (checked, s2) =
                         check_image_on_device e dev (remote_path c) (image_name c) s1
                   in case checked of
                        Inl x \<Rightarrow> (Inl x, Some dev, s2)
                      | Inr image_exists \<Rightarrow>
                          (if \<not> image_exists then
                             (let (copied, s3) =
                                    copy_image_to_device e dev (local_image_dir c)
                                      (remote_path c) (image_name c) s2
                              in if \<not> copied then (Inr (ImageCopyFailed, 1), Some dev, s3)
                                 else main_install e c dev s3)
                           else main_install e c dev s2)))))"

text \<open>
  Lines 306 to 316: the handler turns any exception of the body into the return of line
  311; the \<^verbatim>\<open>finally\<close> block then closes the device the variable \<^verbatim>\<open>dev\<close> holds, if it
  holds one whose flag \<^verbatim>\<open>connected\<close> is set. An exception raised by that close replaces
  the return value and leaves \<^verbatim>\<open>main\<close>.
\<close>

definition main_except :: "exn + outcome \<times> int \<Rightarrow> outcome \<times> int" where
  "main_except result = (case result of Inr r \<Rightarrow> r | Inl x \<Rightarrow> (UpgradeProcessFailed, 1))"

definition main_finally :: "env \<Rightarrow> nat option \<Rightarrow> state \<Rightarrow> exn option \<times> state" where
  "main_finally e dev s =
     (case dev of
        None \<Rightarrow> (None, s)
      | Some d \<Rightarrow> (if d \<in> connected s then device_close e d s else (None, s)))"

definition main_exit ::
  "env \<Rightarrow> (exn + outcome \<times> int) \<times> nat option \<times> state \<Rightarrow> (outcome \<times> int) \<times> state" where
  "main_exit e body =
     (let (result, dev, s) = body;
          (raised, s') = main_finally e dev s
      in case raised of
           None \<Rightarrow> (main_except result, s')
         | Some x \<Rightarrow> ((UncaughtException, 1), s'))"

definition main :: "env \<Rightarrow> state \<Rightarrow> (outcome \<times> int) \<times> state" where
  "main e s =
     (let (loaded, s0) = load_config e s in
      case loaded of
        Inl code \<Rightarrow> ((ConfigRejected, code), s0)
      | Inr c \<Rightarrow>
          (let (dev, s1) = connect_device e s0 in
           case dev of
             None \<Rightarrow> ((ConnectionFailed, 1), s1)
           | Some d \<Rightarrow> main_exit e (main_try e c d s1)))"

section \<open>Reading a trace\<close>

text \<open>
  What one turn of the loop of \<^verbatim>\<open>probe_device\<close> adds to the trace, which events change
  the device (copy, install, reboot), whether the install reported success, and the
  sessions a trace opens and closes, in order. \<open>stuck_close\<close> says of the trace of a run
  that the close of line 277 was reached (the device had accepted the reboot request),
  raised, and left the session marked connected.
\<close>

definition attempt_events :: "env \<Rightarrow> nat \<Rightarrow> event list" where
  "attempt_events e k =
     (case open_result e k of Some x \<Rightarrow> [OpenFailed k x, Sleep 10] | None \<Rightarrow> [OpenOk k])"

fun remote_mutation :: "event \<Rightarrow> bool" where
  "remote_mutation (SafeCopy d l r) = True"
| "remote_mutation (Install d i r) = True"
| "remote_mutation (Reboot d) = True"
| "remote_mutation ev = False"

definition install_ok :: "env \<Rightarrow> bool" where
  "install_ok e = (case sw_install e of Inr (ok, msg) \<Rightarrow> ok | Inl x \<Rightarrow> False)"

fun opened_by :: "event \<Rightarrow> nat list" where
  "opened_by (OpenOk d) = [d]"
| "opened_by ev = []"

fun closed_by :: "event \<Rightarrow> nat list" where
  "closed_by (Close d) = [d]"
| "closed_by ev = []"

definition opens :: "event list \<Rightarrow> nat list" where
  "opens tr = concat (map opened_by tr)"

definition closes :: "event list \<Rightarrow> nat list" where
  "closes tr = concat (map closed_by tr)"

definition sessions :: "state \<Rightarrow> nat set \<times> nat list \<times> nat list \<times> nat" where
  "sessions s = (connected s, opens (trace s), closes (trace s), devices s)"




section \<open>Concrete runs\<close>

text \<open>
  A command line that names every required option, the configuration it resolves to, and
  one environment for each run the theorems below are instantiated at. In \<open>env_upgrade\<close>
  the staging directory exists and is empty.
\<close>

definition cli :: args where
  "cli = \<lparr>arg_host = Some ''10.0.0.1'', arg_user = Some ''admin'', arg_password = Some ''secret'',
           arg_image = Some ''junos.tgz'', arg_local_path = Some ''/images'',
           arg_remote_path = None, arg_expected_version = None, arg_timeout = 720\<rparr>"

definition cfg :: config where
  "cfg = \<lparr>host = ''10.0.0.1'', user = ''admin'', password = ''secret'',
           image_name = ''junos.tgz'', local_image_dir = ''/images'',
           remote_path = ''/var/tmp/usb'', expected_version = ''24.2R2.18'', timeout = 720,
           local_image_fullpath = ''/images/junos.tgz'',
           remote_image_fullpath = ''/var/tmp/usb/junos.tgz''\<rparr>"

definition env_upgrade :: env where
  "env_upgrade =
     \<lparr>argv = cli, environ = Map.empty, getpass_input = ''typed'',
      open_result = (\<lambda>k. if k = 1 then Some ConnectError else if k = 2 then Some OtherException
                          else None),
      open_time = (\<lambda>k. 0),
      dev_facts = (\<lambda>k. Inr [''version'' \<mapsto> Some (if k = 0 then ''23.4R1.9'' else ''24.2R2.18-EVO'')]),
      fs_ls = (\<lambda>p. Inr (LsDict (Some []))),
      path_exists = (\<lambda>p. p = ''/images/junos.tgz''),
      sw_safe_copy = Inr True,
      sw_install = Inr (True, ''installed''),
      sw_reboot = None,
      close_going_down = (\<lambda>n. None)\<rparr>"

definition env_down :: env where
  "env_down = env_upgrade\<lparr>open_result := (\<lambda>k. Some ConnectError)\<rparr>"

definition env_slow :: env where
  "env_slow = env_upgrade\<lparr>open_result := (\<lambda>k. Some ConnectError), open_time := (\<lambda>k. 30)\<rparr>"

definition env_current :: env where
  "env_current = env_upgrade\<lparr>dev_facts := (\<lambda>k. Inr [''version'' \<mapsto> Some ''24.2R2.18-EVO''])\<rparr>"

definition env_flaky :: env where
  "env_flaky =
     env_upgrade\<lparr>open_result := (\<lambda>k. if k = 0 then Some ConnectError
                                      else if k = 1 then Some OtherException
                                      else if k = 2 then Some RpcError else None),
                  open_time := (\<lambda>k. 3)\<rparr>"

definition env_no_version :: env where
  "env_no_version = env_upgrade\<lparr>dev_facts := (\<lambda>k. Inr [''hostname'' \<mapsto> Some ''r1''])\<rparr>"

definition env_no_local_image :: env where
  "env_no_local_image = env_upgrade\<lparr>path_exists := (\<lambda>p. False)\<rparr>"

definition env_install_rejected :: env where
  "env_install_rejected = env_upgrade\<lparr>sw_install := Inr (False, ''bad image'')\<rparr>"

definition env_other_file :: env where
  "env_other_file =
     env_upgrade\<lparr>fs_ls := (\<lambda>p. Inr (LsDict (Some [FileName ''other.tgz'']))),
                 path_exists := (\<lambda>p. False)\<rparr>"

definition env_ls_rpc_error :: env where
  "env_ls_rpc_error = env_upgrade\<lparr>fs_ls := (\<lambda>p. Inl RpcError)\<rparr>"

definition env_ls_none :: env where
  "env_ls_none = env_upgrade\<lparr>fs_ls := (\<lambda>p. Inr LsNone)\<rparr>"



definition env_blank_cli_host :: env where
  "env_blank_cli_host = env_upgrade\<lparr>argv := cli\<lparr>arg_host := Some []\<rparr>\<rparr>"

definition env_blank_host :: env where
  "env_blank_host =
     env_upgrade\<lparr>argv := cli\<lparr>arg_host := None\<rparr>, environ := [''JUNOS_HOST'' \<mapsto> []],
                 open_result := (\<lambda>k. Some ConnectError)\<rparr>"

section \<open>Facts about the calls\<close>

lemmas config_defs = load_config_def resolve_def missing_def password_unset_def py_or_def
  getenv_def getenv_default_def os_path_join_def

lemmas io_defs = device_open_def device_close_def emit_def time_sleep_def start_def

lemmas step_defs = connect_device_def check_image_on_device_def copy_image_to_device_def
  install_image_def verify_version_def os_path_basename_def startswith_def

lemmas main_defs = main_def main_try_def main_install_def main_finally_def main_except_def
  main_exit_def

lemmas probe_eval = probe_device_def probe_loop.simps start_def device_open_def time_sleep_def
  emit_def Let_def

lemma device_open_now: "now (snd (device_open e s)) = now s + int (open_time e (devices s))"
  by (simp add: device_open_def emit_def Let_def split: option.splits)

lemma device_open_devices: "devices (snd (device_open e s)) = Suc (devices s)"
  by (simp add: device_open_def emit_def Let_def split: option.splits)

lemma device_open_Inr:
  "fst (device_open e s) = Inr d \<longleftrightarrow> open_result e (devices s) = None \<and> d = devices s"
  by (auto simp: device_open_def emit_def Let_def split: option.splits)

lemma device_open_Inl:
  "fst (device_open e s) = Inl x \<longleftrightarrow> open_result e (devices s) = Some x"
  by (auto simp: device_open_def emit_def Let_def split: option.splits)

lemma device_open_trace:
  "trace (snd (device_open e s)) =
     trace s @ [case open_result e (devices s) of Some x \<Rightarrow> OpenFailed (devices s) x
                | None \<Rightarrow> OpenOk (devices s)]"
  by (simp add: device_open_def emit_def Let_def split: option.splits)

lemma device_open_connected:
  "connected (snd (device_open e s)) =
     (case open_result e (devices s) of Some x \<Rightarrow> connected s
      | None \<Rightarrow> insert (devices s) (connected s))"
  by (simp add: device_open_def emit_def Let_def split: option.splits)

lemma time_sleep_simps:
  "now (time_sleep n s) = now s + int n"
  "devices (time_sleep n s) = devices s"
  "connected (time_sleep n s) = connected s"
  "trace (time_sleep n s) = trace s @ [Sleep n]"
  by (simp_all add: time_sleep_def emit_def)

subsection \<open>The polling loop\<close>

lemma probe_loop_fail_step:
  "now s < deadline \<Longrightarrow> open_result e (devices s) = Some x \<Longrightarrow>
   probe_loop e deadline s = probe_loop e deadline (time_sleep 10 (snd (device_open e s)))"
  by (subst probe_loop.simps) (simp add: device_open_Inl[symmetric] split: sum.splits exn.splits)

lemma probe_loop_ok_step:
  "now s < deadline \<Longrightarrow> open_result e (devices s) = None \<Longrightarrow>
   probe_loop e deadline s = (Some (devices s), snd (device_open e s))"
  by (subst probe_loop.simps) (auto simp: device_open_Inr device_open_Inl  split: sum.splits exn.splits)

lemma probe_loop_done:
  "\<not> now s < deadline \<Longrightarrow> probe_loop e deadline s = (None, s)"
  by (subst probe_loop.simps) simp

lemma probe_loop_cases [case_names expired opened failed]:
  assumes "\<And>s. \<not> now s < deadline \<Longrightarrow> P s"
    and "\<And>s. now s < deadline \<Longrightarrow> open_result e (devices s) = None \<Longrightarrow> P s"
    and "\<And>s x. now s < deadline \<Longrightarrow> open_result e (devices s) = Some x \<Longrightarrow>
            P (time_sleep 10 (snd (device_open e s))) \<Longrightarrow> P s"
  shows "P s"
  using assms
proof (induction e deadline s rule: probe_loop.induct)
  case (1 e deadline s)
  show ?case
  proof (cases "now s < deadline")
    case False
    then show ?thesis by (rule "1.prems"(1))
  next
    case True
    show ?thesis
    proof (cases "open_result e (devices s)")
      case None
      with True show ?thesis by (rule "1.prems"(2))
    next
      case (Some x)
      then have "fst (device_open e s) = Inl x" by (simp add: device_open_Inl)
      with True "1.IH" "1.prems" have "P (time_sleep 10 (snd (device_open e s)))"
        by (cases x) blast+
      with True Some show ?thesis by (rule "1.prems"(3))
    qed
  qed
qed

lemma probe_loop_now_mono: "now s \<le> now (snd (probe_loop e deadline s))"
proof (induction s rule: probe_loop_cases[of deadline _ e])
  case (expired s)
  then show ?case by (simp add: probe_loop_done)
next
  case (opened s)
  then show ?case by (simp add: probe_loop_ok_step device_open_now)
next
  case (failed s x)
  then show ?case by (simp add: probe_loop_fail_step device_open_now time_sleep_simps)
qed

lemma probe_loop_None_deadline:
  "fst (probe_loop e deadline s) = None \<Longrightarrow> deadline \<le> now (snd (probe_loop e deadline s))"
proof (induction s rule: probe_loop_cases[of deadline _ e])
  case (expired s)
  then show ?case by (simp add: probe_loop_done)
next
  case (opened s)
  then show ?case by (simp add: probe_loop_ok_step)
next
  case (failed s x)
  then show ?case by (simp add: probe_loop_fail_step)
qed

lemma probe_loop_upper:
  assumes "\<forall>k. open_time e k \<le> D"
  shows "now s < deadline \<Longrightarrow> now (snd (probe_loop e deadline s)) < deadline + 10 + int D"
proof (induction s rule: probe_loop_cases[of deadline _ e])
  case (expired s)
  then show ?case by simp
next
  case (opened s)
  moreover have "int (open_time e (devices s)) \<le> int D" using assms by simp
  ultimately show ?case by (simp add: probe_loop_ok_step device_open_now)
next
  case (failed s x)
  let ?s2 = "time_sleep 10 (snd (device_open e s))"
  have d: "int (open_time e (devices s)) \<le> int D" using assms by simp
  have n2: "now ?s2 = now s + int (open_time e (devices s)) + 10"
    by (simp add: time_sleep_simps device_open_now)
  show ?case
  proof (cases "now ?s2 < deadline")
    case True
    with failed show ?thesis by (simp add: probe_loop_fail_step)
  next
    case False
    then have "probe_loop e deadline ?s2 = (None, ?s2)" by (rule probe_loop_done)
    with failed d n2 show ?thesis by (simp add: probe_loop_fail_step)
  qed
qed

lemma probe_loop_always_failing:
  assumes "\<forall>k. open_result e k \<noteq> None"
  shows "fst (probe_loop e deadline s) = None"
proof (induction s rule: probe_loop_cases[of deadline _ e])
  case (expired s)
  then show ?case by (simp add: probe_loop_done)
next
  case (opened s)
  from assms have "open_result e (devices s) \<noteq> None" by blast
  with opened show ?case by simp
next
  case (failed s x)
  then show ?case by (simp add: probe_loop_fail_step)
qed

lemma probe_loop_devices_mono: "devices s \<le> devices (snd (probe_loop e deadline s))"
proof (induction s rule: probe_loop_cases[of deadline _ e])
  case (expired s)
  then show ?case by (simp add: probe_loop_done)
next
  case (opened s)
  then show ?case by (simp add: probe_loop_ok_step device_open_devices)
next
  case (failed s x)
  then show ?case by (simp add: probe_loop_fail_step device_open_devices time_sleep_simps)
qed

lemma probe_loop_trace:
  "trace (snd (probe_loop e deadline s)) =
     trace s @ concat (map (attempt_events e) [devices s..<devices (snd (probe_loop e deadline s))])"
proof (induction s rule: probe_loop_cases[of deadline _ e])
  case (expired s)
  then show ?case by (simp add: probe_loop_done)
next
  case (opened s)
  then show ?case
    by (simp add: probe_loop_ok_step device_open_devices device_open_trace attempt_events_def)
next
  case (failed s x)
  let ?s2 = "time_sleep 10 (snd (device_open e s))"
  have "Suc (devices s) \<le> devices (snd (probe_loop e deadline ?s2))"
    using probe_loop_devices_mono[of ?s2 e deadline]
    by (simp add: time_sleep_simps device_open_devices)
  then have "[devices s..<devices (snd (probe_loop e deadline ?s2))] =
               devices s # [Suc (devices s)..<devices (snd (probe_loop e deadline ?s2))]"
    by (simp add: upt_conv_Cons)
  with failed show ?case
    by (simp add: probe_loop_fail_step device_open_devices device_open_trace time_sleep_simps
        attempt_events_def)
qed

lemma probe_loop_Some:
  "fst (probe_loop e deadline s) = Some d \<Longrightarrow>
     open_result e d = None \<and> devices s \<le> d \<and> devices (snd (probe_loop e deadline s)) = Suc d"
proof (induction s rule: probe_loop_cases[of deadline _ e])
  case (expired s)
  then show ?case by (simp add: probe_loop_done)
next
  case (opened s)
  then show ?case by (auto simp: probe_loop_ok_step device_open_devices)
next
  case (failed s x)
  then show ?case by (simp add: probe_loop_fail_step device_open_devices time_sleep_simps)
qed

lemma probe_loop_earlier_failed:
  "devices s \<le> k \<Longrightarrow> k < devices (snd (probe_loop e deadline s)) \<Longrightarrow>
   fst (probe_loop e deadline s) \<noteq> Some k \<Longrightarrow> open_result e k \<noteq> None"
proof (induction s rule: probe_loop_cases[of deadline _ e])
  case (expired s)
  then show ?case by (simp add: probe_loop_done)
next
  case (opened s)
  then show ?case by (auto simp: probe_loop_ok_step device_open_devices)
next
  case (failed s x)
  show ?case
  proof (cases "k = devices s")
    case True
    with failed show ?thesis by simp
  next
    case False
    with failed show ?thesis
      by (simp add: probe_loop_fail_step device_open_devices time_sleep_simps)
  qed
qed

lemma probe_loop_connected:
  "connected (snd (probe_loop e deadline s)) =
     connected s \<union> set_option (fst (probe_loop e deadline s))"
proof (induction s rule: probe_loop_cases[of deadline _ e])
  case (expired s)
  then show ?case by (simp add: probe_loop_done)
next
  case (opened s)
  then show ?case by (simp add: probe_loop_ok_step device_open_connected)
next
  case (failed s x)
  then show ?case by (simp add: probe_loop_fail_step device_open_connected time_sleep_simps)
qed

lemma attempt_events_no_mutation:
  "filter remote_mutation (concat (map (attempt_events e) ks)) = []"
  by (induction ks) (auto simp: attempt_events_def split: option.splits)

lemma probe_device_trace:
  "\<exists>post. trace (snd (probe_device e tmo s)) = trace s @ post \<and>
      filter remote_mutation post = []"
  using probe_loop_trace[of e "now s + tmo" s] attempt_events_no_mutation
  by (auto simp: probe_device_def)

subsection \<open>Configuration and connection\<close>

lemma load_config_state:
  "load_config e s = (Inr c, s0) \<Longrightarrow> s0 = s \<or> s0 = emit Getpass s"
  by (auto simp: load_config_def Let_def split: if_splits)

lemma load_config_cli:
  "argv e = cli \<Longrightarrow> environ e = Map.empty \<Longrightarrow> load_config e s = (Inr cfg, s)"
  by (simp add: config_defs cli_def cfg_def Let_def)

lemma missing_Nil:
  "missing rc = [] \<longleftrightarrow>
     raw_host rc \<noteq> None \<and> raw_user rc \<noteq> None \<and> raw_image_name rc \<noteq> None \<and>
     raw_local_image_dir rc \<noteq> None \<and> raw_remote_path rc \<noteq> None \<and>
     raw_expected_version rc \<noteq> None"
  by (auto simp: missing_def)

lemma resolve_defaults:
  "raw_remote_path (resolve e) \<noteq> None" "raw_expected_version (resolve e) \<noteq> None"
  by (auto simp: resolve_def py_or_def getenv_default_def split: option.splits)

lemma missing_resolve:
  "missing (resolve e) \<noteq> [] \<longleftrightarrow>
     raw_host (resolve e) = None \<or> raw_user (resolve e) = None \<or>
     raw_image_name (resolve e) = None \<or> raw_local_image_dir (resolve e) = None"
  using resolve_defaults[of e] by (auto simp: missing_Nil)

lemma load_config_rejected: "missing (resolve e) \<noteq> [] \<Longrightarrow> load_config e s = (Inl 1, s)"
  by (simp add: load_config_def Let_def)

lemma load_config_accepted:
  assumes "missing (resolve e) = []"
  shows "\<exists>c. load_config e s = (Inr c, if password_unset (resolve e) then emit Getpass s else s) \<and>
           raw_host (resolve e) = Some (host c) \<and> raw_user (resolve e) = Some (user c) \<and>
           raw_image_name (resolve e) = Some (image_name c) \<and>
           raw_local_image_dir (resolve e) = Some (local_image_dir c) \<and>
           raw_remote_path (resolve e) = Some (remote_path c) \<and>
           raw_expected_version (resolve e) = Some (expected_version c) \<and>
           timeout c = arg_timeout (argv e) \<and>
           (if password_unset (resolve e) then password c = getpass_input e
            else raw_password (resolve e) = Some (password c))"
proof -
  from assms have "raw_host (resolve e) \<noteq> None" "raw_user (resolve e) \<noteq> None"
    "raw_image_name (resolve e) \<noteq> None" "raw_local_image_dir (resolve e) \<noteq> None"
    "raw_remote_path (resolve e) \<noteq> None" "raw_expected_version (resolve e) \<noteq> None"
    by (simp_all add: missing_Nil)
  moreover have "raw_timeout (resolve e) = arg_timeout (argv e)"
    by (simp add: resolve_def)
  moreover have "\<not> password_unset (resolve e) \<Longrightarrow> raw_password (resolve e) \<noteq> None"
    by (cases "raw_password (resolve e)") (simp_all add: password_unset_def)
  ultimately show ?thesis using assms
    by (auto simp: load_config_def Let_def)
qed

lemma connect_device_ok:
  "open_result e (devices s) = None \<Longrightarrow>
   connect_device e s = (Some (devices s), snd (device_open e s))"
  by (simp add: connect_device_def device_open_def Let_def)

lemma connect_device_failed:
  "open_result e (devices s) = Some x \<Longrightarrow>
   connect_device e s = (None, snd (device_open e s))"
  by (simp add: connect_device_def device_open_def Let_def split: exn.splits)

subsection \<open>Sessions opened and closed\<close>

lemma opens_simps [simp]:
  "opens [] = []" "opens (ev # tr) = opened_by ev @ opens tr" "opens (tr @ tr') = opens tr @ opens tr'"
  by (simp_all add: opens_def)

lemma closes_simps [simp]:
  "closes [] = []" "closes (ev # tr) = closed_by ev @ closes tr"
  "closes (tr @ tr') = closes tr @ closes tr'"
  by (simp_all add: closes_def)




lemma sessions_emit:
  "sessions (emit ev s) =
     (connected s, opens (trace s) @ opened_by ev, closes (trace s) @ closed_by ev, devices s)"
  by (simp add: sessions_def emit_def)






lemma sessions_check_image:
  "sessions (snd (check_image_on_device e dev rp im s)) = sessions s"
  by (simp add: check_image_on_device_def sessions_def emit_def Let_def
      split: sum.splits option.splits exn.splits)

lemma sessions_copy_image:
  "sessions (snd (copy_image_to_device e dev lp rp im s)) = sessions s"
  by (simp add: copy_image_to_device_def sessions_def emit_def Let_def
      split: sum.splits option.splits exn.splits)

lemma device_close_trace: "trace (snd (device_close e d s)) = trace s @ [Close d]"
  by (simp add: device_close_def emit_def Let_def split: option.splits prod.splits)

lemma device_close_healthy:
  "\<not> going_down e d s \<Longrightarrow>
   device_close e d s = (None, (emit (Close d) s)\<lparr>connected := connected s - {d}\<rparr>)"
  by (simp add: device_close_def emit_def Let_def)



lemma going_down_emit:
  "going_down e d (emit ev s) \<longleftrightarrow> going_down e d s \<or> (sw_reboot e = None \<and> ev = Reboot d)"
  by (auto simp: going_down_def emit_def)

lemma check_image_snd: "snd (check_image_on_device e dev rp im s) = emit (Ls dev rp) s"
  by (simp add: check_image_on_device_def Let_def split: sum.splits option.splits exn.splits)

lemma check_image_fst:
  "fst (check_image_on_device e dev rp im s) = fst (check_image_on_device e dev rp im s')"
  by (simp add: check_image_on_device_def Let_def split: sum.splits option.splits exn.splits)

lemma copy_image_trace:
  "\<exists>evs. trace (snd (copy_image_to_device e dev lp rp im s)) =
           trace s @ PathExists (os_path_join lp im) # evs \<and>
         (\<forall>d n p. Install d n p \<notin> set evs) \<and> (\<forall>d. Reboot d \<notin> set evs)"
  by (simp add: copy_image_to_device_def emit_def Let_def split: sum.splits)

lemma copy_image_missing:
  "\<not> path_exists e (os_path_join lp im) \<Longrightarrow>
   copy_image_to_device e dev lp rp im s = (False, emit (PathExists (os_path_join lp im)) s)"
  by (simp add: copy_image_to_device_def Let_def)

lemma main_try_cases:
  "\<exists>s' evs. trace s' = trace s @ ReadFacts dev # evs \<and>
      (\<forall>d n p. Install d n p \<notin> set evs) \<and> (\<forall>d. Reboot d \<notin> set evs) \<and>
      sessions s' = sessions s \<and>
      (main_try e c dev s = main_install e c dev s' \<or>
       (\<exists>r. main_try e c dev s = (r, Some dev, s') \<and> r \<noteq> Inr (InstallFailed, 1)))"
proof -
  let ?s1 = "emit (ReadFacts dev) s"
  let ?ck = "check_image_on_device e dev (remote_path c) (image_name c) ?s1"
  let ?s2 = "emit (Ls dev (remote_path c)) ?s1"
  let ?cp = "copy_image_to_device e dev (local_image_dir c) (remote_path c) (image_name c) ?s2"
  have s1: "trace ?s1 = trace s @ ReadFacts dev # []" "sessions ?s1 = sessions s"
    by (simp_all add: emit_def sessions_def)
  have s2: "trace ?s2 = trace s @ ReadFacts dev # [Ls dev (remote_path c)]"
    "sessions ?s2 = sessions s"
    by (simp_all add: emit_def sessions_def)
  from copy_image_trace[of e dev "local_image_dir c" "remote_path c" "image_name c" ?s2]
  obtain evs where evs: "trace (snd ?cp) =
      trace ?s2 @ PathExists (os_path_join (local_image_dir c) (image_name c)) # evs"
    "\<forall>d n p. Install d n p \<notin> set evs" "\<forall>d. Reboot d \<notin> set evs"
    by blast
  have s3: "trace (snd ?cp) = trace s @ ReadFacts dev #
      ([Ls dev (remote_path c), PathExists (os_path_join (local_image_dir c) (image_name c))] @ evs)"
    "sessions (snd ?cp) = sessions s"
    using evs(1) s2 by (simp_all add: sessions_copy_image emit_def)
  consider (early) r where "main_try e c dev s = (r, Some dev, ?s1)" "r \<noteq> Inr (InstallFailed, 1)"
    | (raised) r where "main_try e c dev s = (r, Some dev, ?s2)" "r \<noteq> Inr (InstallFailed, 1)"
    | (staged) "main_try e c dev s = main_install e c dev ?s2"
    | (nocopy) r where "main_try e c dev s = (r, Some dev, snd ?cp)" "r \<noteq> Inr (InstallFailed, 1)"
    | (copied) "main_try e c dev s = main_install e c dev (snd ?cp)"
  proof (cases "dev_facts e dev")
    case (Inl x)
    then have "main_try e c dev s = (Inl x, Some dev, ?s1)"
      by (simp add: main_try_def Let_def)
    then show ?thesis by (rule early) simp
  next
    case (Inr f)
    show ?thesis
    proof (cases "case f ''version'' of None \<Rightarrow> None | Some v \<Rightarrow> v")
      case None
      with Inr have "main_try e c dev s = (Inl AttributeError, Some dev, ?s1)"
        by (simp add: main_try_def Let_def)
      then show ?thesis by (rule early) simp
    next
      case (Some cv)
      show ?thesis
      proof (cases "startswith cv (expected_version c)")
        case True
        with Inr Some have "main_try e c dev s = (Inr (AlreadyUpToDate, 0), Some dev, ?s1)"
          by (simp add: main_try_def Let_def)
        then show ?thesis by (rule early) simp
      next
        case False
        note unfold = Inr Some False check_image_snd[of e dev "remote_path c" "image_name c" ?s1]
        show ?thesis
        proof (cases "fst ?ck")
          case (Inl x)
          with unfold have "main_try e c dev s = (Inl x, Some dev, ?s2)"
            by (simp add: main_try_def Let_def split_def)
          then show ?thesis by (rule raised) simp
        next
          case ck: (Inr image_exists)
          show ?thesis
          proof (cases image_exists)
            case True
            with unfold ck have "main_try e c dev s = main_install e c dev ?s2"
              by (simp add: main_try_def Let_def split_def)
            then show ?thesis by (rule staged)
          next
            case absent: False
            show ?thesis
            proof (cases "fst ?cp")
              case True
              with unfold ck absent have "main_try e c dev s = main_install e c dev (snd ?cp)"
                by (simp add: main_try_def Let_def split_def)
              then show ?thesis by (rule copied)
            next
              case False
              with unfold ck absent
              have "main_try e c dev s = (Inr (ImageCopyFailed, 1), Some dev, snd ?cp)"
                by (simp add: main_try_def Let_def split_def)
              then show ?thesis by (rule nocopy) simp
            qed
          qed
        qed
      qed
    qed
  qed
  then show ?thesis
  proof cases
    case early
    with s1 show ?thesis by (intro exI[of _ ?s1] exI[of _ "[]"]) simp
  next
    case raised
    with s2 show ?thesis by (intro exI[of _ ?s2] exI[of _ "[Ls dev (remote_path c)]"]) simp
  next
    case staged
    with s2 show ?thesis by (intro exI[of _ ?s2] exI[of _ "[Ls dev (remote_path c)]"]) simp
  next
    case nocopy
    with s3 evs show ?thesis
      by (intro exI[of _ "snd ?cp"] exI[of _ "[Ls dev (remote_path c),
            PathExists (os_path_join (local_image_dir c) (image_name c))] @ evs"]) simp
  next
    case copied
    with s3 evs show ?thesis
      by (intro exI[of _ "snd ?cp"] exI[of _ "[Ls dev (remote_path c),
            PathExists (os_path_join (local_image_dir c) (image_name c))] @ evs"]) simp
  qed
qed

lemma load_config_sessions:
  "load_config e (start t0) = (Inr c, s0) \<Longrightarrow> sessions s0 = ({}, [], [], 0)"
  by (drule load_config_state) (auto simp: sessions_def emit_def start_def)

subsection \<open>The trace of a run\<close>

lemma install_image_trace:
  "trace (snd (install_image e dev rp im s)) =
     trace s @ Install dev (os_path_basename im) rp # (if install_ok e then [Reboot dev] else [])"
  by (simp add: install_image_def install_ok_def emit_def Let_def
      split: sum.splits option.splits prod.splits)

lemma install_image_fst:
  "fst (install_image e dev rp im s) \<longleftrightarrow> install_ok e \<and> sw_reboot e = None"
  by (simp add: install_image_def install_ok_def emit_def Let_def
      split: sum.splits option.splits prod.splits)

lemma no_mutation_D:
  "filter remote_mutation evs = [] \<Longrightarrow>
   Install d n p \<notin> set evs \<and> Reboot d \<notin> set evs \<and> SafeCopy d n p \<notin> set evs"
  by (auto simp: filter_empty_conv)

lemma verify_version_snd: "snd (verify_version e d p s) = emit (ReadFacts d) s"
  by (simp add: verify_version_def Let_def split: sum.splits option.splits)

lemma main_install_failed:
  "\<not> fst (install_image e dev (remote_path c) (image_name c) s) \<Longrightarrow>
   main_install e c dev s =
     (Inr (InstallFailed, 1), Some dev, snd (install_image e dev (remote_path c) (image_name c) s))"
  by (simp add: main_install_def split_def)

lemma main_exit_snd:
  "snd (main_exit e body) = snd (main_finally e (fst (snd body)) (snd (snd body)))"
  by (simp add: main_exit_def split_def Let_def split: option.splits)

lemma main_exit_fst:
  "fst (main_exit e body) =
     (case fst (main_finally e (fst (snd body)) (snd (snd body))) of
        None \<Rightarrow> main_except (fst body)
      | Some x \<Rightarrow> (UncaughtException, 1))"
  by (simp add: main_exit_def split_def Let_def split: option.splits)

lemma main_finally_trace:
  "\<exists>post. trace (snd (main_finally e dev s)) = trace s @ post \<and>
      filter remote_mutation post = []"
  by (cases dev) (simp_all add: main_finally_def device_close_trace)

lemma main_exit_early:
  "0 \<in> connected s \<Longrightarrow> \<not> going_down e 0 s \<Longrightarrow>
   main_exit e (result, Some 0, s) =
     (main_except result, (emit (Close 0) s)\<lparr>connected := connected s - {0}\<rparr>)"
  by (simp add: main_exit_def main_finally_def device_close_healthy)

lemma main_install_raised:
  "fst (install_image e dev (remote_path c) (image_name c) s) \<Longrightarrow>
   fst (device_close e dev (snd (install_image e dev (remote_path c) (image_name c) s))) = Some x \<Longrightarrow>
   main_install e c dev s =
     (Inl x, Some dev,
      snd (device_close e dev (snd (install_image e dev (remote_path c) (image_name c) s))))"
  by (simp add: main_install_def split_def)

lemma main_install_post:
  "\<exists>post. trace (snd (main_exit e (main_install e c dev s))) =
           trace (snd (install_image e dev (remote_path c) (image_name c) s)) @ post \<and>
         filter remote_mutation post = []"
proof (cases "fst (install_image e dev (remote_path c) (image_name c) s)")
  case False
  then show ?thesis
    using main_finally_trace[of e "Some dev"
        "snd (install_image e dev (remote_path c) (image_name c) s)"]
    by (simp add: main_install_failed main_exit_snd)
next
  case True
  let ?s1 = "snd (install_image e dev (remote_path c) (image_name c) s)"
  let ?cl = "device_close e dev ?s1"
  have t2: "trace (snd ?cl) = trace ?s1 @ [Close dev]"
    by (rule device_close_trace)
  show ?thesis
  proof (cases "fst ?cl")
    case (Some x)
    from main_finally_trace[of e "Some dev" "snd ?cl"] obtain fin where
      fin: "trace (snd (main_finally e (Some dev) (snd ?cl))) = trace (snd ?cl) @ fin"
        "filter remote_mutation fin = []"
      by blast
    from True Some have "snd (main_exit e (main_install e c dev s)) =
        snd (main_finally e (Some dev) (snd ?cl))"
      by (simp add: main_install_raised main_exit_snd)
    with t2 fin show ?thesis
      by (intro exI[of _ "Close dev # fin"]) simp
  next
    case closed: None
    let ?s3 = "time_sleep 720 (snd ?cl)"
    let ?p = "probe_device e (timeout c) ?s3"
    have t3: "trace ?s3 = trace ?s1 @ [Close dev, Sleep 720]"
      using t2 by (simp add: time_sleep_simps)
    from probe_device_trace[of e "timeout c" ?s3] obtain evs where
      evs: "trace (snd ?p) = trace ?s3 @ evs" "filter remote_mutation evs = []"
      by blast
    show ?thesis
    proof (cases "fst ?p")
      case None
      with True closed have "snd (main_exit e (main_install e c dev s)) = snd ?p"
        by (simp add: main_install_def main_exit_snd main_finally_def Let_def split_def)
      with t3 evs show ?thesis
        by (intro exI[of _ "[Close dev, Sleep 720] @ evs"]) simp
    next
      case (Some d2)
      let ?s5 = "emit (ReadFacts d2) (snd ?p)"
      from main_finally_trace[of e "Some d2" ?s5] obtain fin where
        fin: "trace (snd (main_finally e (Some d2) ?s5)) = trace ?s5 @ fin"
          "filter remote_mutation fin = []"
        by blast
      from Some True closed have "snd (main_exit e (main_install e c dev s)) =
          snd (main_finally e (Some d2) ?s5)"
        by (simp add: main_install_def main_exit_snd Let_def split_def verify_version_snd)
      with t3 evs fin show ?thesis
        by (intro exI[of _ "[Close dev, Sleep 720] @ evs @ ReadFacts d2 # fin"])
           (simp add: emit_def)
    qed
  qed
qed






lemma main_connected:
  assumes "load_config e (start t0) = (Inr c, s0)" and "open_result e 0 = None"
  shows "main e (start t0) = main_exit e (main_try e c 0 (snd (device_open e s0)))"
    and "trace (snd (device_open e s0)) = trace s0 @ [OpenOk 0]"
    and "connected (snd (device_open e s0)) = {0}"
    and "devices (snd (device_open e s0)) = 1"
    and "\<forall>d. Reboot d \<notin> set (trace (snd (device_open e s0)))"
proof -
  from assms(1) have s0: "sessions s0 = ({}, [], [], 0)" by (rule load_config_sessions)
  then have d0: "devices s0 = 0" and c0: "connected s0 = {}" by (simp_all add: sessions_def)
  from load_config_state[OF assms(1)] have t0: "trace s0 = [] \<or> trace s0 = [Getpass]"
    by (auto simp: emit_def start_def)
  from d0 assms(2) have "connect_device e s0 = (Some 0, snd (device_open e s0))"
    using connect_device_ok[of e s0] by simp
  with assms(1) show "main e (start t0) = main_exit e (main_try e c 0 (snd (device_open e s0)))"
    by (simp add: main_def)
  show tr: "trace (snd (device_open e s0)) = trace s0 @ [OpenOk 0]"
    using assms(2) d0 by (simp add: device_open_trace)
  show "connected (snd (device_open e s0)) = {0}"
    using assms(2) d0 c0 by (simp add: device_open_connected)
  show "devices (snd (device_open e s0)) = 1"
    using d0 by (simp add: device_open_devices)
  show "\<forall>d. Reboot d \<notin> set (trace (snd (device_open e s0)))"
    using tr t0 by auto
qed

lemma main_finally_healthy: "\<not> going_down e d s \<Longrightarrow> fst (main_finally e (Some d) s) = None"
  by (simp add: main_finally_def device_close_healthy)

lemma main_early_exit:
  assumes "load_config e (start t0) = (Inr c, s0)" and "open_result e 0 = None"
    and "main_try e c 0 (snd (device_open e s0)) =
          (result, Some 0, emit (ReadFacts 0) (snd (device_open e s0)))"
  shows "fst (main e (start t0)) = main_except result"
    and "trace (snd (main e (start t0))) = trace s0 @ [OpenOk 0, ReadFacts 0, Close 0]"
    and "connected (snd (main e (start t0))) = {}"
proof -
  let ?s2 = "emit (ReadFacts 0) (snd (device_open e s0))"
  note conn = main_connected[OF assms(1,2)]
  have "0 \<in> connected ?s2" using conn(3) by (simp add: emit_def)
  moreover have "\<not> going_down e 0 ?s2"
    using conn(5) by (simp add: going_down_def emit_def)
  ultimately have m: "main e (start t0) =
      (main_except result, (emit (Close 0) ?s2)\<lparr>connected := connected ?s2 - {0}\<rparr>)"
    using conn(1) assms(3) by (simp add: main_exit_early)
  show "fst (main e (start t0)) = main_except result" using m by simp
  show "trace (snd (main e (start t0))) = trace s0 @ [OpenOk 0, ReadFacts 0, Close 0]"
    using m conn(2) by (simp add: emit_def)
  show "connected (snd (main e (start t0))) = {}"
    using m conn(3) by (simp add: emit_def)
qed

lemma main_install_reached:
  assumes "Install d n p \<in> set (trace (snd (main e (start t0))))"
  shows "\<exists>c s. main e (start t0) = main_exit e (main_install e c 0 s) \<and>
           (\<forall>d n p. Install d n p \<notin> set (trace s)) \<and> (\<forall>d. Reboot d \<notin> set (trace s))"
proof (cases "fst (load_config e (start t0))")
  case (Inl code)
  then have "snd (main e (start t0)) = start t0"
    by (auto simp: main_def load_config_def Let_def split_def split: if_splits)
  with assms show ?thesis by (simp add: start_def)
next
  case (Inr c)
  let ?s0 = "snd (load_config e (start t0))"
  let ?s1 = "snd (device_open e ?s0)"
  from Inr have lc: "load_config e (start t0) = (Inr c, ?s0)" by (simp add: prod_eq_iff)
  from load_config_state[OF lc] have t0: "trace ?s0 = [] \<or> trace ?s0 = [Getpass]"
    by (auto simp: emit_def start_def)
  from load_config_sessions[OF lc] have d0: "devices ?s0 = 0" by (simp add: sessions_def)
  show ?thesis
  proof (cases "open_result e 0")
    case (Some x)
    with d0 have "connect_device e ?s0 = (None, ?s1)"
      using connect_device_failed[of e ?s0 x] by simp
    with Inr have "snd (main e (start t0)) = ?s1" by (simp add: main_def Let_def split_def)
    moreover have "trace ?s1 = trace ?s0 @ [OpenFailed 0 x]"
      using Some d0 by (simp add: device_open_trace)
    ultimately show ?thesis using assms t0 by auto
  next
    case None
    note conn = main_connected[OF lc None]
    from main_try_cases[of ?s1 0 e c] obtain s' evs where
      tr: "trace s' = trace ?s1 @ ReadFacts 0 # evs"
      and ni: "\<forall>d n p. Install d n p \<notin> set evs" and nr: "\<forall>d. Reboot d \<notin> set evs"
      and alt: "main_try e c 0 ?s1 = main_install e c 0 s' \<or>
        (\<exists>r. main_try e c 0 ?s1 = (r, Some 0, s') \<and> r \<noteq> Inr (InstallFailed, 1))"
      by blast
    from tr conn(2) t0 ni nr have clean:
      "\<forall>d n p. Install d n p \<notin> set (trace s')" "\<forall>d. Reboot d \<notin> set (trace s')"
      by auto
    from alt show ?thesis
    proof
      assume "main_try e c 0 ?s1 = main_install e c 0 s'"
      with conn(1) clean show ?thesis by auto
    next
      assume "\<exists>r. main_try e c 0 ?s1 = (r, Some 0, s') \<and> r \<noteq> Inr (InstallFailed, 1)"
      then obtain r where "main_try e c 0 ?s1 = (r, Some 0, s')" by blast
      with conn(1) have "snd (main e (start t0)) = snd (main_finally e (Some 0) s')"
        by (simp add: main_exit_snd)
      moreover from main_finally_trace[of e "Some 0" s'] obtain fin where
        "trace (snd (main_finally e (Some 0) s')) = trace s' @ fin"
        "filter remote_mutation fin = []"
        by blast
      ultimately have "Install d n p \<notin> set (trace (snd (main e (start t0))))"
        using clean(1) no_mutation_D[of fin d n p] by simp
      with assms show ?thesis by simp
    qed
  qed
qed

lemmas run_eval = main_defs config_defs io_defs step_defs probe_device_def probe_loop.simps
  install_ok_def going_down_def cli_def Let_def split_def

lemma run_env_upgrade:
  "main env_upgrade (start 0) =
     ((Success, 0),
      \<lparr>now = 740, devices = 4, connected = {},
       trace = [OpenOk 0, ReadFacts 0, Ls 0 ''/var/tmp/usb'', PathExists ''/images/junos.tgz'',
                SafeCopy 0 ''/images/junos.tgz'' ''/var/tmp/usb'',
                Install 0 ''junos.tgz'' ''/var/tmp/usb'', Reboot 0, Close 0, Sleep 720,
                OpenFailed 1 ConnectError, Sleep 10, OpenFailed 2 OtherException, Sleep 10,
                OpenOk 3, ReadFacts 3, Close 3]\<rparr>)"
  by (simp add: env_upgrade_def run_eval)

lemma run_env_install_rejected:
  "main env_install_rejected (start 0) =
     ((InstallFailed, 1),
      \<lparr>now = 0, devices = 1, connected = {},
       trace = [OpenOk 0, ReadFacts 0, Ls 0 ''/var/tmp/usb'', PathExists ''/images/junos.tgz'',
                SafeCopy 0 ''/images/junos.tgz'' ''/var/tmp/usb'',
                Install 0 ''junos.tgz'' ''/var/tmp/usb'', Close 0]\<rparr>)"
  by (simp add: env_install_rejected_def env_upgrade_def run_eval)



section \<open>The claims\<close>

text \<open>
  C1. When the configuration loads, the device connects and its facts report a version that
  starts with the expected prefix, \<^verbatim>\<open>main\<close> returns at line 265: outcome
  \<open>AlreadyUpToDate\<close>, exit code 0. After the events of \<^verbatim>\<open>load_config\<close> the trace is
  the connection, the reading of the facts and the close of the \<^verbatim>\<open>finally\<close> block: no
  copy, no install and no reboot.
\<close>

theorem already_up_to_date:
  assumes "load_config e (start t0) = (Inr c, s0)"
    and "open_result e 0 = None"
    and "dev_facts e 0 = Inr f"
    and "f ''version'' = Some (Some v)"
    and "startswith v (expected_version c)"
  shows "fst (main e (start t0)) = (AlreadyUpToDate, 0) \<and>
         trace (snd (main e (start t0))) = trace s0 @ [OpenOk 0, ReadFacts 0, Close 0] \<and>
         filter remote_mutation (trace (snd (main e (start t0)))) = []"
proof -
  from assms(1) have s0: "s0 = start t0 \<or> s0 = emit Getpass (start t0)"
    by (rule load_config_state)
  have body: "main_try e c 0 (snd (device_open e s0)) =
               (Inr (AlreadyUpToDate, 0), Some 0, emit (ReadFacts 0) (snd (device_open e s0)))"
    using assms(3-5) by (simp add: main_try_def Let_def)
  note fin = main_early_exit[OF assms(1,2) body]
  moreover have "filter remote_mutation (trace s0) = []"
    using s0 by (auto simp: io_defs)
  ultimately show ?thesis by (simp add: main_except_def)
qed

theorem already_up_to_date_witness:
  "startswith ''24.2R2.18-EVO'' (expected_version cfg) \<and>
   fst (main env_current (start 0)) = (AlreadyUpToDate, 0) \<and>
   trace (snd (main env_current (start 0))) = [OpenOk 0, ReadFacts 0, Close 0]"
proof -
  have 1: "load_config env_current (start 0) = (Inr cfg, start 0)"
    by (simp add: load_config_cli env_current_def env_upgrade_def)
  have 2: "open_result env_current 0 = None"
    by (simp add: env_current_def env_upgrade_def)
  have 3: "dev_facts env_current 0 = Inr [''version'' \<mapsto> Some ''24.2R2.18-EVO'']"
    by (simp add: env_current_def)
  have 4: "[''version'' \<mapsto> Some ''24.2R2.18-EVO''] ''version'' = Some (Some ''24.2R2.18-EVO'')"
    by simp
  have 5: "startswith ''24.2R2.18-EVO'' (expected_version cfg)"
    by (simp add: startswith_def cfg_def)
  from already_up_to_date[OF 1 2 3 4 5] 5 show ?thesis
    by (simp add: start_def)
qed




text \<open>
  C3, as amended. With a timeout above zero and a connector that fails on every attempt,
  \<^verbatim>\<open>probe_device\<close> returns \<^verbatim>\<open>None\<close>; it makes at least one attempt and every attempt
  is followed by a sleep of 10 time-units; it returns no earlier than the timeout after it
  starts, and earlier than the timeout plus one polling interval plus the longest time
  \<open>D\<close> an attempt takes. With attempts that take no time (\<open>D = 0\<close>) that is the timeout
  plus one polling interval.
\<close>

theorem probe_device_always_failing:
  assumes "0 < tmo" and "\<forall>k. open_result e k \<noteq> None" and "\<forall>k. open_time e k \<le> D"
  shows "fst (probe_device e tmo s) = None \<and>
         now s + tmo \<le> now (snd (probe_device e tmo s)) \<and>
         now (snd (probe_device e tmo s)) < now s + tmo + 10 + int D \<and>
         devices s < devices (snd (probe_device e tmo s)) \<and>
         trace (snd (probe_device e tmo s)) =
           trace s @ concat (map (\<lambda>k. [OpenFailed k (the (open_result e k)), Sleep 10])
                              [devices s..<devices (snd (probe_device e tmo s))])"
proof -
  let ?p = "probe_loop e (now s + tmo) s"
  have none: "fst ?p = None" using assms(2) by (rule probe_loop_always_failing)
  then have lower: "now s + tmo \<le> now (snd ?p)" by (rule probe_loop_None_deadline)
  have upper: "now (snd ?p) < now s + tmo + 10 + int D"
    using assms(1) probe_loop_upper[OF assms(3), of s "now s + tmo"] by simp
  from assms(2) obtain x where x: "open_result e (devices s) = Some x" by auto
  have "Suc (devices s) \<le> devices (snd ?p)"
    using assms(1) probe_loop_fail_step[of s "now s + tmo" e x] x
      probe_loop_devices_mono[of "time_sleep 10 (snd (device_open e s))" e "now s + tmo"]
    by (simp add: time_sleep_simps device_open_devices)
  then have more: "devices s < devices (snd ?p)" by simp
  have "attempt_events e = (\<lambda>k. [OpenFailed k (the (open_result e k)), Sleep 10])"
  proof (rule ext)
    fix k
    from assms(2) obtain y where "open_result e k = Some y" by auto
    then show "attempt_events e k = [OpenFailed k (the (open_result e k)), Sleep 10]"
      by (simp add: attempt_events_def)
  qed
  with probe_loop_trace[of e "now s + tmo" s]
  have "trace (snd ?p) = trace s @
      concat (map (\<lambda>k. [OpenFailed k (the (open_result e k)), Sleep 10])
                 [devices s..<devices (snd ?p)])"
    by simp
  with none lower upper more show ?thesis by (simp add: probe_device_def)
qed

theorem probe_device_always_failing_witness:
  "(0::int) < 25 \<and> (\<forall>k. open_result env_down k \<noteq> None) \<and> (\<forall>k. open_time env_down k \<le> 0) \<and>
   fst (probe_device env_down 25 (start 0)) = None \<and>
   now (snd (probe_device env_down 25 (start 0))) = 30 \<and>
   trace (snd (probe_device env_down 25 (start 0))) =
     [OpenFailed 0 ConnectError, Sleep 10, OpenFailed 1 ConnectError, Sleep 10,
      OpenFailed 2 ConnectError, Sleep 10]"
proof -
  have 1: "(0::int) < 25" by simp
  have 2: "\<forall>k. open_result env_down k \<noteq> None" by (simp add: env_down_def)
  have 3: "\<forall>k. open_time env_down k \<le> 0" by (simp add: env_down_def env_upgrade_def)
  have "now (snd (probe_device env_down 25 (start 0))) = 30"
    "trace (snd (probe_device env_down 25 (start 0))) =
     [OpenFailed 0 ConnectError, Sleep 10, OpenFailed 1 ConnectError, Sleep 10,
      OpenFailed 2 ConnectError, Sleep 10]"
    by (simp_all add: env_down_def env_upgrade_def probe_eval)
  with probe_device_always_failing[OF 1 2 3, of "start 0"] 1 2 3 show ?thesis by simp
qed

text \<open>
  C3, as stated, fails when a connection attempt takes time, because the deadline is only
  tested at the head of the loop: with a timeout of 5 and a connector that takes 30
  time-units to fail, \<^verbatim>\<open>probe_device\<close> returns 40 time-units after it starts, later than
  the timeout plus one polling interval (15).
\<close>

theorem probe_device_slow_connector_counterexample:
  "fst (probe_device env_slow 5 (start 0)) = None \<and>
   now (start 0) = 0 \<and>
   now (snd (probe_device env_slow 5 (start 0))) = 40 \<and>
   \<not> now (snd (probe_device env_slow 5 (start 0))) \<le> now (start 0) + 5 + 10"
  by (simp add: env_slow_def env_upgrade_def probe_eval)

text \<open>
  C4. \<^verbatim>\<open>install_image\<close> follows an install that reports success by the reboot request,
  with nothing in between, and requests no reboot otherwise. In a run that reaches the
  install: if the install reports success the trace of the whole run holds the install
  followed at once by the reboot, and no other install or reboot; if it reports failure or
  raises, the run ends with outcome \<open>InstallFailed\<close> and exit code 1, and no reboot is
  requested.
\<close>

theorem install_success_requests_reboot:
  assumes "Install d n p \<in> set (trace (snd (main e (start t0))))"
  shows "trace (snd (install_image e dev rp im s)) =
           trace s @ Install dev (os_path_basename im) rp #
             (if install_ok e then [Reboot dev] else []) \<and>
         (install_ok e \<longrightarrow>
            (\<exists>pre post. trace (snd (main e (start t0))) =
                 pre @ [Install d n p, Reboot d] @ post \<and>
               (\<forall>d n p. Install d n p \<notin> set (pre @ post)) \<and>
               (\<forall>d. Reboot d \<notin> set (pre @ post)))) \<and>
         (\<not> install_ok e \<longrightarrow>
            fst (main e (start t0)) = (InstallFailed, 1) \<and>
            (\<forall>d. Reboot d \<notin> set (trace (snd (main e (start t0))))))"
proof -
  from main_install_reached[OF assms] obtain c s' where
    m: "main e (start t0) = main_exit e (main_install e c 0 s')"
    and ni: "\<forall>d n p. Install d n p \<notin> set (trace s')" and nr: "\<forall>d. Reboot d \<notin> set (trace s')"
    by blast
  let ?im = "Install 0 (os_path_basename (image_name c)) (remote_path c)"
  let ?s1 = "snd (install_image e 0 (remote_path c) (image_name c) s')"
  from main_install_post[of e c 0 s'] obtain post where
    post: "trace (snd (main e (start t0))) =
        trace s' @ ?im # (if install_ok e then [Reboot 0] else []) @ post"
      "filter remote_mutation post = []"
    using m by (auto simp: install_image_trace)
  from post(2) have np: "\<forall>d n p. Install d n p \<notin> set post" "\<forall>d. Reboot d \<notin> set post"
    using no_mutation_D[of post] by blast+
  from assms post(1) ni np have same: "Install d n p = ?im"
    by (auto split: if_splits)
  then have d: "d = 0" by simp
  have ok: "\<exists>pre post. trace (snd (main e (start t0))) = pre @ [Install d n p, Reboot d] @ post \<and>
      (\<forall>d n p. Install d n p \<notin> set (pre @ post)) \<and> (\<forall>d. Reboot d \<notin> set (pre @ post))"
    if "install_ok e"
    using that post(1) ni nr np same d
    by (intro exI[of _ "trace s'"] exI[of _ post]) simp
  have ko: "fst (main e (start t0)) = (InstallFailed, 1) \<and>
      (\<forall>d. Reboot d \<notin> set (trace (snd (main e (start t0)))))"
    if "\<not> install_ok e"
  proof -
    from that have failed: "\<not> fst (install_image e 0 (remote_path c) (image_name c) s')"
      by (simp add: install_image_fst)
    from that nr have "\<not> going_down e 0 ?s1"
      by (simp add: going_down_def install_image_trace)
    then have "fst (main_finally e (Some 0) ?s1) = None"
      by (rule main_finally_healthy)
    with failed have "fst (main e (start t0)) = (InstallFailed, 1)"
      using m by (simp add: main_install_failed main_exit_fst main_except_def)
    moreover from that post(1) nr np have "\<forall>d. Reboot d \<notin> set (trace (snd (main e (start t0))))"
      by simp
    ultimately show ?thesis by simp
  qed
  from ok ko install_image_trace[of e dev rp im s] show ?thesis by blast
qed

theorem install_success_requests_reboot_witness:
  "install_ok env_upgrade \<and>
   Install 0 ''junos.tgz'' ''/var/tmp/usb'' \<in> set (trace (snd (main env_upgrade (start 0)))) \<and>
   (\<exists>pre post. trace (snd (main env_upgrade (start 0))) =
      pre @ [Install 0 ''junos.tgz'' ''/var/tmp/usb'', Reboot 0] @ post) \<and>
   \<not> install_ok env_install_rejected \<and>
   Install 0 ''junos.tgz'' ''/var/tmp/usb'' \<in> set (trace (snd (main env_install_rejected (start 0)))) \<and>
   fst (main env_install_rejected (start 0)) = (InstallFailed, 1)"
proof -
  have ok: "install_ok env_upgrade"
    by (simp add: install_ok_def env_upgrade_def)
  have ko: "\<not> install_ok env_install_rejected"
    by (simp add: install_ok_def env_install_rejected_def)
  have i1: "Install 0 ''junos.tgz'' ''/var/tmp/usb'' \<in> set (trace (snd (main env_upgrade (start 0))))"
    by (simp add: run_env_upgrade)
  have i2: "Install 0 ''junos.tgz'' ''/var/tmp/usb'' \<in>
      set (trace (snd (main env_install_rejected (start 0))))"
    by (simp add: run_env_install_rejected)
  from install_success_requests_reboot[OF i1] ok
  have a: "\<exists>pre post. trace (snd (main env_upgrade (start 0))) =
      pre @ [Install 0 ''junos.tgz'' ''/var/tmp/usb'', Reboot 0] @ post"
    by blast
  from install_success_requests_reboot[OF i2] ko
  have b: "fst (main env_install_rejected (start 0)) = (InstallFailed, 1)"
    by blast
  from ok i1 a ko i2 b show ?thesis by blast
qed

text \<open>
  C5. The claim holds when the staging directory is empty (the second run below), and
  the code misses it as soon as the directory holds a file. With the image absent from a
  directory that holds another file, and no local file, line 155 calls \<^verbatim>\<open>get\<close> on the
  name of that file, a string: \<^verbatim>\<open>check_image_on_device\<close> raises \<^verbatim>\<open>AttributeError\<close>, line
  161 does not catch it, and the run ends in the handler of line 306 with outcome
  \<open>UpgradeProcessFailed\<close>, not at line 272 with \<open>ImageCopyFailed\<close>. The exit code is 1,
  no install is attempted and the session is closed in both runs.
\<close>

theorem absent_image_in_nonempty_directory:
  "fs_ls env_other_file (remote_path cfg) = Inr (LsDict (Some [FileName ''other.tgz''])) \<and>
   path_exists env_other_file (os_path_join (local_image_dir cfg) (image_name cfg)) = False \<and>
   check_image_on_device env_other_file 0 (remote_path cfg) (image_name cfg) (start 0) =
     (Inl AttributeError, emit (Ls 0 (remote_path cfg)) (start 0)) \<and>
   main env_other_file (start 0) =
     ((UpgradeProcessFailed, 1),
      \<lparr>now = 0, devices = 1, connected = {},
       trace = [OpenOk 0, ReadFacts 0, Ls 0 ''/var/tmp/usb'', Close 0]\<rparr>) \<and>
   main env_no_local_image (start 0) =
     ((ImageCopyFailed, 1),
      \<lparr>now = 0, devices = 1, connected = {},
       trace = [OpenOk 0, ReadFacts 0, Ls 0 ''/var/tmp/usb'', PathExists ''/images/junos.tgz'',
                Close 0]\<rparr>)"
  by (simp add: env_other_file_def env_no_local_image_def env_upgrade_def cfg_def run_eval)

text \<open>
  C6. The claim holds for \<^verbatim>\<open>RpcError\<close> (the second run below) and for a dictionary
  without \<^verbatim>\<open>files\<close>, and the code misses it for the listing failure that line 150 names,
  a remote path that is not found: \<^verbatim>\<open>fs.ls\<close> then returns \<^verbatim>\<open>None\<close>, line 149 raises
  \<^verbatim>\<open>TypeError\<close>, line 161 does not catch it, and the run ends in the handler of line 306
  without attempting the copy.
\<close>

theorem listing_of_missing_path_ends_run:
  "fs_ls env_ls_none (remote_path cfg) = Inr LsNone \<and>
   check_image_on_device env_ls_none 0 (remote_path cfg) (image_name cfg) (start 0) =
     (Inl TypeError, emit (Ls 0 (remote_path cfg)) (start 0)) \<and>
   main env_ls_none (start 0) =
     ((UpgradeProcessFailed, 1),
      \<lparr>now = 0, devices = 1, connected = {},
       trace = [OpenOk 0, ReadFacts 0, Ls 0 ''/var/tmp/usb'', Close 0]\<rparr>) \<and>
   check_image_on_device env_ls_rpc_error 0 (remote_path cfg) (image_name cfg) (start 0) =
     (Inr False, emit (Ls 0 (remote_path cfg)) (start 0)) \<and>
   fst (main env_ls_rpc_error (start 0)) = (Success, 0)"
  by (simp add: env_ls_none_def env_ls_rpc_error_def env_upgrade_def cfg_def run_eval)

text \<open>
  C7. Whatever exception \<^verbatim>\<open>dev.open()\<close> raises, the loop sleeps and tests the deadline
  again: a failed attempt made before the deadline leaves \<^verbatim>\<open>probe_device\<close> equal to the
  loop continued after the sleep; the trace is one \<open>attempt_events\<close> per device created;
  every attempt but the last failed; and the loop ends either with a device whose
  \<^verbatim>\<open>open\<close> returned, or with \<^verbatim>\<open>None\<close> at a time not before the deadline.
\<close>

theorem probe_device_exceptions_do_not_abort:
  "(\<forall>x. now s < now s + tmo \<and> open_result e (devices s) = Some x \<longrightarrow>
       probe_device e tmo s =
         probe_loop e (now s + tmo) (time_sleep 10 (snd (device_open e s)))) \<and>
   trace (snd (probe_device e tmo s)) =
     trace s @ concat (map (attempt_events e) [devices s..<devices (snd (probe_device e tmo s))]) \<and>
   (\<forall>k. devices s \<le> k \<and> Suc k < devices (snd (probe_device e tmo s)) \<longrightarrow>
        open_result e k \<noteq> None) \<and>
   (case fst (probe_device e tmo s) of
      Some d \<Rightarrow> open_result e d = None \<and> devices (snd (probe_device e tmo s)) = Suc d
    | None \<Rightarrow> now s + tmo \<le> now (snd (probe_device e tmo s)) \<and>
        (\<forall>k. devices s \<le> k \<and> k < devices (snd (probe_device e tmo s)) \<longrightarrow>
             open_result e k \<noteq> None))"
proof -
  let ?p = "probe_loop e (now s + tmo) s"
  have step: "\<forall>x. now s < now s + tmo \<and> open_result e (devices s) = Some x \<longrightarrow>
       ?p = probe_loop e (now s + tmo) (time_sleep 10 (snd (device_open e s)))"
    by (auto intro: probe_loop_fail_step)
  have earlier: "\<forall>k. devices s \<le> k \<and> Suc k < devices (snd ?p) \<longrightarrow> open_result e k \<noteq> None"
  proof (intro allI impI)
    fix k
    assume k: "devices s \<le> k \<and> Suc k < devices (snd ?p)"
    have "fst ?p \<noteq> Some k"
    proof
      assume "fst ?p = Some k"
      then have "devices (snd ?p) = Suc k" by (simp add: probe_loop_Some)
      with k show False by simp
    qed
    with k show "open_result e k \<noteq> None"
      by (intro probe_loop_earlier_failed[of s k e "now s + tmo"]) simp_all
  qed
  have exit: "case fst ?p of
      Some d \<Rightarrow> open_result e d = None \<and> devices (snd ?p) = Suc d
    | None \<Rightarrow> now s + tmo \<le> now (snd ?p) \<and>
        (\<forall>k. devices s \<le> k \<and> k < devices (snd ?p) \<longrightarrow> open_result e k \<noteq> None)"
  proof (cases "fst ?p")
    case None
    then show ?thesis
      using probe_loop_None_deadline[of e "now s + tmo" s]
        probe_loop_earlier_failed[of s _ e "now s + tmo"]
      by simp
  next
    case (Some d)
    then show ?thesis using probe_loop_Some[of e "now s + tmo" s d] by simp
  qed
  from step probe_loop_trace[of e "now s + tmo" s] earlier exit show ?thesis
    unfolding probe_device_def by blast
qed

theorem probe_device_exceptions_do_not_abort_witness:
  "probe_device env_flaky 720 (start 0) =
     (Some 3, \<lparr>now = 42, devices = 4, connected = {3},
               trace = [OpenFailed 0 ConnectError, Sleep 10, OpenFailed 1 OtherException,
                        Sleep 10, OpenFailed 2 RpcError, Sleep 10, OpenOk 3]\<rparr>) \<and>
   open_result env_flaky 3 = None \<and>
   probe_device env_flaky 720 (start 0) =
     probe_loop env_flaky 720 (time_sleep 10 (snd (device_open env_flaky (start 0))))"
proof -
  have ev: "probe_device env_flaky 720 (start 0) =
     (Some 3, \<lparr>now = 42, devices = 4, connected = {3},
               trace = [OpenFailed 0 ConnectError, Sleep 10, OpenFailed 1 OtherException,
                        Sleep 10, OpenFailed 2 RpcError, Sleep 10, OpenOk 3]\<rparr>)"
    by (simp add: env_flaky_def env_upgrade_def probe_eval)
  have o3: "open_result env_flaky 3 = None"
    by (simp add: env_flaky_def)
  have n: "now (start 0) = 0" by (simp add: start_def)
  have "now (start 0) < now (start 0) + 720 \<and>
      open_result env_flaky (devices (start 0)) = Some ConnectError"
    by (simp add: env_flaky_def start_def)
  with probe_device_exceptions_do_not_abort[of "start 0" 720 env_flaky]
  have "probe_device env_flaky 720 (start 0) =
      probe_loop env_flaky (now (start 0) + 720)
        (time_sleep 10 (snd (device_open env_flaky (start 0))))"
    by blast
  then have st: "probe_device env_flaky 720 (start 0) =
      probe_loop env_flaky 720 (time_sleep 10 (snd (device_open env_flaky (start 0))))"
    unfolding n by simp
  show ?thesis by (rule conjI[OF ev conjI[OF o3 st]])
qed

text \<open>
  C8. The claim holds for a field that is \<^verbatim>\<open>None\<close> and for an empty value given on the
  command line (\<^verbatim>\<open>'' or None\<close> is \<^verbatim>\<open>None\<close>: the second run below is rejected with exit
  code 1), and the code misses it for an empty value that comes from the environment:
  line 90 tests \<^verbatim>\<open>v is None\<close>, and the empty string is not \<^verbatim>\<open>None\<close>. With no host on
  the command line and \<^verbatim>\<open>JUNOS_HOST\<close> set to the empty string, \<^verbatim>\<open>load_config\<close> accepts a
  configuration whose host is empty, and \<^verbatim>\<open>main\<close> goes on to the connection attempt.
\<close>

theorem blank_environment_host_accepted:
  "raw_host (resolve env_blank_host) = Some [] \<and>
   load_config env_blank_host (start 0) = (Inr (cfg\<lparr>host := []\<rparr>), start 0) \<and>
   host (cfg\<lparr>host := []\<rparr>) = [] \<and>
   main env_blank_host (start 0) =
     ((ConnectionFailed, 1),
      \<lparr>now = 0, devices = 1, connected = {}, trace = [OpenFailed 0 ConnectError]\<rparr>) \<and>
   raw_host (resolve env_blank_cli_host) = None \<and>
   main env_blank_cli_host (start 0) = ((ConfigRejected, 1), start 0)"
  by (simp add: env_blank_host_def env_blank_cli_host_def env_upgrade_def cfg_def run_eval)

text \<open>
  C9. When the facts of the device have no \<^verbatim>\<open>version\<close> entry, line 263 calls
  \<^verbatim>\<open>startswith\<close> on \<^verbatim>\<open>None\<close>: the body of the \<^verbatim>\<open>try\<close> raises
  \<^verbatim>\<open>AttributeError\<close>, the handler returns at line 311 (outcome
  \<open>UpgradeProcessFailed\<close>, exit code 1), and the \<^verbatim>\<open>finally\<close> block closes the session.
\<close>

theorem missing_version_generic_failure:
  assumes "load_config e (start t0) = (Inr c, s0)"
    and "open_result e 0 = None"
    and "dev_facts e 0 = Inr f"
    and "f ''version'' = None"
  shows "fst (main_try e c 0 (snd (device_open e s0))) = Inl AttributeError \<and>
         fst (main e (start t0)) = (UpgradeProcessFailed, 1) \<and>
         trace (snd (main e (start t0))) = trace s0 @ [OpenOk 0, ReadFacts 0, Close 0] \<and>
         connected (snd (main e (start t0))) = {}"
proof -
  let ?s1 = "snd (device_open e s0)"
  have body: "main_try e c 0 ?s1 = (Inl AttributeError, Some 0, emit (ReadFacts 0) ?s1)"
    using assms(3,4) by (simp add: main_try_def Let_def)
  note fin = main_early_exit[OF assms(1,2) body]
  with body show ?thesis by (simp add: main_except_def)
qed

theorem missing_version_generic_failure_witness:
  "[''hostname'' \<mapsto> Some ''r1''] ''version'' = None \<and>
   fst (main env_no_version (start 0)) = (UpgradeProcessFailed, 1) \<and>
   trace (snd (main env_no_version (start 0))) = [OpenOk 0, ReadFacts 0, Close 0]"
proof -
  have 1: "load_config env_no_version (start 0) = (Inr cfg, start 0)"
    by (simp add: load_config_cli env_no_version_def env_upgrade_def)
  have 2: "open_result env_no_version 0 = None"
    by (simp add: env_no_version_def env_upgrade_def)
  have 3: "dev_facts env_no_version 0 = Inr [''hostname'' \<mapsto> Some ''r1'']"
    by (simp add: env_no_version_def)
  have 4: "[''hostname'' \<mapsto> Some ''r1''] ''version'' = None"
    by simp
  from missing_version_generic_failure[OF 1 2 3 4] 4 show ?thesis
    by (simp add: start_def)
qed

text \<open>
  C10. With a timeout of zero or less the loop is not entered: \<^verbatim>\<open>probe_device\<close> returns
  \<^verbatim>\<open>None\<close> and leaves the state as it was (no device created, no event, no time passed).
\<close>

theorem probe_device_nonpositive_timeout:
  "tmo \<le> 0 \<Longrightarrow> probe_device e tmo s = (None, s)"
  by (simp add: probe_device_def probe_loop_done)

theorem probe_device_nonpositive_timeout_witness:
  "probe_device env_upgrade (- 5) (start 0) = (None, start 0) \<and>
   probe_device env_upgrade 0 (start 0) = (None, start 0)"
  using probe_device_nonpositive_timeout[of "- 5" env_upgrade "start 0"]
    probe_device_nonpositive_timeout[of 0 env_upgrade "start 0"]
  by simp

end
